theory Spec2Isabelle
  imports Main
begin

section \<open>Queue configuration types (src/config/types.messages.ts)\<close>

text \<open>
  \<^verbatim>\<open>QueueMode\<close> and \<^verbatim>\<open>QueueDropPolicy\<close> are unions of string literal types. Each
  constructor stands for one literal; \<open>queueModeLiteral\<close> and \<open>queueDropPolicyLiteral\<close>
  give the literal back. \<open>SteerBacklog\<close> is \<^verbatim>\<open>"steer-backlog"\<close> and \<open>SteerPlusBacklog\<close>
  is \<^verbatim>\<open>"steer+backlog"\<close>; \<open>Collect'\<close> is \<^verbatim>\<open>"collect"\<close>
  (\<open>Collect\<close> is the set comprehension of HOL).
\<close>

datatype QueueMode =
    Steer
  | Followup
  | Collect'
  | SteerBacklog
  | SteerPlusBacklog
  | Queue
  | Interrupt

datatype QueueDropPolicy = Old | New | Summarize

fun queueModeLiteral :: "QueueMode \<Rightarrow> string" where
  "queueModeLiteral Steer = ''steer''"
| "queueModeLiteral Followup = ''followup''"
| "queueModeLiteral Collect' = ''collect''"
| "queueModeLiteral SteerBacklog = ''steer-backlog''"
| "queueModeLiteral SteerPlusBacklog = ''steer+backlog''"
| "queueModeLiteral Queue = ''queue''"
| "queueModeLiteral Interrupt = ''interrupt''"

fun queueDropPolicyLiteral :: "QueueDropPolicy \<Rightarrow> string" where
  "queueDropPolicyLiteral Old = ''old''"
| "queueDropPolicyLiteral New = ''new''"
| "queueDropPolicyLiteral Summarize = ''summarize''"

text \<open>An optional property (\<^verbatim>\<open>mode?: QueueMode\<close>) is an \<open>option\<close>.\<close>

record QueueModeByProvider =
  whatsapp :: "QueueMode option"
  telegram :: "QueueMode option"
  discord :: "QueueMode option"
  googlechat :: "QueueMode option"
  slack :: "QueueMode option"
  signal :: "QueueMode option"
  imessage :: "QueueMode option"
  msteams :: "QueueMode option"
  webchat :: "QueueMode option"

type_synonym InboundDebounceByProvider = "string \<rightharpoonup> nat"

text \<open>The field \<^verbatim>\<open>drop\<close> is \<open>drop'\<close> here: \<open>drop\<close> is the list function.\<close>

record QueueConfig =
  mode :: "QueueMode option"
  byChannel :: "QueueModeByProvider option"
  debounceMs :: "nat option"
  debounceMsByChannel :: "InboundDebounceByProvider option"
  cap :: "nat option"
  drop' :: "QueueDropPolicy option"

section \<open>Hook registry (src/hooks/registry.ts)\<close>

text \<open>
  The module keeps one process-wide \<^verbatim>\<open>Map<string, HookHandler[]>\<close>. A handler is a
  closure; the registry stores references to closures, so the model stores the identity
  of a closure (a number) and keeps what the closure does in a separate table
  (\<open>behaviour\<close>). The arrays held by the map are reachable through the map only:
  \<^verbatim>\<open>triggerHook\<close> copies their elements into a fresh local array before the first
  \<^verbatim>\<open>await\<close>, so lists as values model them without loss.
\<close>

type_synonym HookHandler = nat

type_synonym Registry = "string \<rightharpoonup> HookHandler list"

text \<open>
  \<^verbatim>\<open>HookEvent\<close> is declared in \<^verbatim>\<open>./types.js\<close>; the fields are the ones
  \<^verbatim>\<open>createHookEvent\<close> fills in. \<open>type\<close> and \<open>action\<close> are strings, the only two
  fields the dispatcher reads.
\<close>

record HookEvent =
  type :: string
  action :: string
  sessionKey :: string
  timestamp :: nat
  messages :: "string list"
  ctx :: "(string \<times> string) list"

text \<open>
  A thrown value, as lines 47 and 48 of the \<^verbatim>\<open>catch\<close> block see it. JavaScript lets a
  handler throw any value.
  \<^item> \<open>ErrorObj m\<close>: \<^verbatim>\<open>err instanceof Error\<close> holds and \<^verbatim>\<open>err.message\<close> is the
    string \<open>m\<close>.
  \<^item> \<open>NonError s\<close>: not an \<^verbatim>\<open>Error\<close>, and \<^verbatim>\<open>String(err)\<close> is the string \<open>s\<close>.
  \<^item> \<open>ErrorNoText e\<close>: \<^verbatim>\<open>err instanceof Error\<close> holds, but the message cannot be
    put into the template literal of line 48 (it is a \<^verbatim>\<open>Symbol\<close>, say): building the
    log line throws \<open>e\<close>.
  \<^item> \<open>NoStringForm e\<close>: not an \<^verbatim>\<open>Error\<close>, and \<^verbatim>\<open>String(err)\<close> on line 47 throws
    \<open>e\<close> (an object with no \<^verbatim>\<open>toString\<close> and no \<^verbatim>\<open>valueOf\<close>, such as
    \<^verbatim>\<open>Object.create(null)\<close>, or one whose \<^verbatim>\<open>toString\<close> throws).
\<close>

datatype thrown =
    ErrorObj string
  | NonError string
  | ErrorNoText thrown
  | NoStringForm thrown

text \<open>How a call ends: the promise resolves, or it rejects with a thrown value.\<close>

datatype outcome = Resolved | Rejected thrown

text \<open>
  The state a dispatch runs in. \<open>registry\<close> is the module's map; \<open>ext\<close> is
  everything else a handler can read and write; \<open>logged\<close> collects the messages sent to
  \<^verbatim>\<open>logger.error\<close>; \<open>invoked\<close> records each handler call the dispatcher makes, with
  the key it was resolved under, in call order.
\<close>

record 'e world =
  registry :: Registry
  ext :: 'e
  logged :: "string list"
  invoked :: "(string \<times> HookHandler) list"

text \<open>
  The behaviour of the handlers: a handler receives the event, may change the registry
  (it can call \<^verbatim>\<open>registerHook\<close> and \<^verbatim>\<open>clearHooks\<close>, and so can any other task
  that runs while it is awaited) and the external state, and settles. A handler whose
  promise never settles is outside the model, and \<^verbatim>\<open>logger.error\<close> is taken to return.
\<close>

type_synonym 'e behaviour =
  "HookHandler \<Rightarrow> HookEvent \<Rightarrow> Registry \<times> 'e \<Rightarrow> outcome \<times> (Registry \<times> 'e)"

text \<open>\<^verbatim>\<open>registry.get(eventKey) ?? []\<close>: the list under a key, empty when the key is absent.\<close>

definition handlersOf :: "Registry \<Rightarrow> string \<Rightarrow> HookHandler list" where
  "handlersOf reg eventKey = (case reg eventKey of None \<Rightarrow> [] | Some hs \<Rightarrow> hs)"

definition registerHook :: "string \<Rightarrow> HookHandler \<Rightarrow> Registry \<Rightarrow> Registry" where
  "registerHook eventKey handler reg =
     (let handlers = handlersOf reg eventKey
      in reg(eventKey \<mapsto> handlers @ [handler]))"

definition clearHooks :: "Registry \<Rightarrow> Registry" where
  "clearHooks reg = Map.empty"

definition specificKey :: "HookEvent \<Rightarrow> string" where
  "specificKey event = type event @ '':'' @ action event"

definition generalKey :: "HookEvent \<Rightarrow> string" where
  "generalKey event = type event"

text \<open>The two \<^verbatim>\<open>for ... of\<close> loops that push \<^verbatim>\<open>{ key, handler }\<close> onto \<^verbatim>\<open>handlers\<close>.\<close>

definition pushAll ::
  "string \<Rightarrow> HookHandler list \<Rightarrow> (string \<times> HookHandler) list \<Rightarrow> (string \<times> HookHandler) list" where
  "pushAll key hs handlers = fold (\<lambda>handler acc. acc @ [(key, handler)]) hs handlers"

definition specificHandlers :: "Registry \<Rightarrow> HookEvent \<Rightarrow> HookHandler list option" where
  "specificHandlers reg event = reg (specificKey event)"

definition generalHandlers :: "Registry \<Rightarrow> HookEvent \<Rightarrow> HookHandler list option" where
  "generalHandlers reg event = reg (generalKey event)"

text \<open>Lines 25 to 39 of \<^verbatim>\<open>triggerHook\<close>: the handler list of a dispatch.\<close>

definition resolveHandlers :: "Registry \<Rightarrow> HookEvent \<Rightarrow> (string \<times> HookHandler) list" where
  "resolveHandlers reg event =
     (let handlers = [];
          handlers = (case specificHandlers reg event of
                        None \<Rightarrow> handlers
                      | Some hs \<Rightarrow> pushAll (specificKey event) hs handlers);
          handlers = (case generalHandlers reg event of
                        None \<Rightarrow> handlers
                      | Some hs \<Rightarrow> pushAll (generalKey event) hs handlers)
      in handlers)"

text \<open>
  Line 47 and the interpolation of line 48:
  \<^verbatim>\<open>err instanceof Error ? err.message : String(err)\<close>, then the text put into the
  template literal. The result is the text (\<open>Inr\<close>), or the value thrown on the way
  (\<open>Inl\<close>); the \<^verbatim>\<open>catch\<close> block has no guard of its own.
\<close>

definition errMessage :: "thrown \<Rightarrow> thrown + string" where
  "errMessage err =
     (case err of
        ErrorObj m \<Rightarrow> Inr m
      | NonError s \<Rightarrow> Inr s
      | ErrorNoText e \<Rightarrow> Inl e
      | NoStringForm e \<Rightarrow> Inl e)"

definition handlerErrorLine :: "string \<Rightarrow> string \<Rightarrow> string" where
  "handlerErrorLine key msg =
     ''[hooks] Handler error for '' @ [CHR 0x22] @ key @ [CHR 0x22] @ '': '' @ msg"

text \<open>
  The \<^verbatim>\<open>catch\<close> block, lines 46 to 49: it logs the failure under the key, unless
  building the message throws; then the block ends in that throw and nothing is logged.
\<close>

definition catchBlock :: "string \<Rightarrow> thrown \<Rightarrow> 'e world \<Rightarrow> outcome \<times> 'e world" where
  "catchBlock key err w =
     (case errMessage err of
        Inr msg \<Rightarrow> (Resolved, w\<lparr>logged := logged w @ [handlerErrorLine key msg]\<rparr>)
      | Inl e \<Rightarrow> (Rejected e, w))"

text \<open>
  One pass of the dispatch loop's body: \<^verbatim>\<open>try { await handler(event) } catch (err) {...}\<close>.
  The handler is applied to the registry and the external state as they are now. The
  result is how the body itself ends.
\<close>

definition invokeHandler ::
  "'e behaviour \<Rightarrow> HookEvent \<Rightarrow> string \<Rightarrow> HookHandler \<Rightarrow> 'e world \<Rightarrow> outcome \<times> 'e world" where
  "invokeHandler beh event key handler w =
     (let (res, (reg', ext')) = beh handler event (registry w, ext w);
          w' = w\<lparr>registry := reg', ext := ext', invoked := invoked w @ [(key, handler)]\<rparr>
      in case res of
           Resolved \<Rightarrow> (Resolved, w')
         | Rejected err \<Rightarrow> catchBlock key err w')"

text \<open>
  The loop of lines 43 to 50 over the resolved list. A body that ends in a throw ends the
  loop: the promise of \<^verbatim>\<open>triggerHook\<close> rejects and the handlers left in the list are
  not called.
\<close>

fun runHandlers ::
  "'e behaviour \<Rightarrow> HookEvent \<Rightarrow> (string \<times> HookHandler) list \<Rightarrow> 'e world \<Rightarrow> outcome \<times> 'e world" where
  "runHandlers beh event [] w = (Resolved, w)"
| "runHandlers beh event ((key, handler) # rest) w =
     (case invokeHandler beh event key handler w of
        (Resolved, w') \<Rightarrow> runHandlers beh event rest w'
      | (Rejected err, w') \<Rightarrow> (Rejected err, w'))"

definition triggerHook :: "'e behaviour \<Rightarrow> HookEvent \<Rightarrow> 'e world \<Rightarrow> outcome \<times> 'e world" where
  "triggerHook beh event w =
     (let handlers = resolveHandlers (registry w) event
      in if length handlers = 0 then (Resolved, w)
         else runHandlers beh event handlers w)"

text \<open>
  \<^verbatim>\<open>createHookEvent\<close>; the clock read by \<^verbatim>\<open>new Date()\<close> is the first argument.
\<close>

definition createHookEvent ::
  "nat \<Rightarrow> string \<Rightarrow> string \<Rightarrow> string \<Rightarrow> (string \<times> string) list \<Rightarrow> HookEvent" where
  "createHookEvent now type' action' sessionKey' context =
     \<lparr>type = type', action = action', sessionKey = sessionKey', timestamp = now,
      messages = [], ctx = context\<rparr>"

subsection \<open>Inputs of the closed instances\<close>

text \<open>
  Two events: \<^verbatim>\<open>{type: "command", action: "new"}\<close>, and one whose type is the whole
  string \<^verbatim>\<open>"command:new"\<close> with action \<^verbatim>\<open>"stop"\<close>.
\<close>

definition commandNew :: HookEvent where
  "commandNew = createHookEvent 0 ''command'' ''new'' ''main'' []"

definition colonTyped :: HookEvent where
  "colonTyped = createHookEvent 0 ''command:new'' ''stop'' ''main'' []"

text \<open>An empty registry, and a behaviour in which handler 2 throws \<^verbatim>\<open>new Error("boom")\<close>.\<close>

definition noHooks :: "unit world" where
  "noHooks = \<lparr>registry = Map.empty, ext = (), logged = [], invoked = []\<rparr>"

definition specificThrows :: "unit behaviour" where
  "specificThrows handler event s =
     (if handler = 2 then (Rejected (ErrorObj ''boom''), s) else (Resolved, s))"

text \<open>
  Three registries. \<open>twoHooks\<close>: \<^verbatim>\<open>registerHook("command", H1)\<close>, then
  \<^verbatim>\<open>registerHook("command:new", H2)\<close>, with \<open>H1 = 1\<close> and \<open>H2 = 2\<close>. \<open>sameTwice\<close>:
  handler 1 registered twice under \<^verbatim>\<open>"command"\<close>. \<open>colonKeys\<close>: handler 3 under
  \<^verbatim>\<open>"command:new:stop"\<close>, then handler 2 under \<^verbatim>\<open>"command:new"\<close>.
\<close>

definition twoHooks :: Registry where
  "twoHooks = registerHook ''command:new'' 2 (registerHook ''command'' 1 Map.empty)"

definition sameTwice :: Registry where
  "sameTwice = registerHook ''command'' 1 (registerHook ''command'' 1 Map.empty)"

definition colonKeys :: Registry where
  "colonKeys = registerHook ''command:new'' 2 (registerHook ''command:new:stop'' 3 Map.empty)"

text \<open>
  The state before a dispatch from a registry. The external state is a journal that the
  handlers write themselves: nothing is logged, called or written yet.
\<close>

definition startWith :: "Registry \<Rightarrow> HookHandler list world" where
  "startWith reg = \<lparr>registry = reg, ext = [], logged = [], invoked = []\<rparr>"

text \<open>
  Handlers that write their own identity to the journal when they run and then settle as
  \<open>settle\<close> says; they leave the registry alone.
\<close>

definition journalling :: "(HookHandler \<Rightarrow> outcome) \<Rightarrow> HookHandler list behaviour" where
  "journalling settle handler event s = (settle handler, (fst s, snd s @ [handler]))"

definition allResolve :: "HookHandler \<Rightarrow> outcome" where
  "allResolve handler = Resolved"

definition throwsAt :: "HookHandler \<Rightarrow> thrown \<Rightarrow> HookHandler \<Rightarrow> outcome" where
  "throwsAt bad err handler = (if handler = bad then Rejected err else Resolved)"

text \<open>
  Two values a handler can throw. \<^verbatim>\<open>throw Object.create(null)\<close>: \<^verbatim>\<open>String(err)\<close>
  throws a \<^verbatim>\<open>TypeError\<close>. \<^verbatim>\<open>throw Object.assign(new Error(), {message: Symbol()})\<close>:
  the template literal throws a \<^verbatim>\<open>TypeError\<close>.
\<close>

definition nullPrototype :: thrown where
  "nullPrototype = NoStringForm (ErrorObj ''Cannot convert object to primitive value'')"

definition symbolMessage :: thrown where
  "symbolMessage = ErrorNoText (ErrorObj ''Cannot convert a Symbol value to a string'')"

section \<open>Inbound queue controller\<close>

text \<open>
  Modelled from the spec: the inbound queue controller and its \<^verbatim>\<open>submit\<close> operation.
  The source files declare the configuration types above and nothing of the controller,
  so the definitions of this section follow section 3 (Session Queue State) and steps 1
  to 4 of the algorithm of section 4.1 of the specification. The built-in defaults, the
  steer callback and the summarizer are external to the controller and are parameters.
\<close>

text \<open>
  Modelled from the spec: the Decision of a submission. \<open>Dropped\<close> carries its reason,
  the drop policy that discarded a message.
\<close>

datatype 'm Decision = Flushed "'m list" | Queued | Dropped QueueDropPolicy

text \<open>
  Modelled from the spec: the Session Queue State. \<open>debounceTimer\<close> is the time at which
  the armed timer fires, or \<open>None\<close>; arming replaces the previous value.
\<close>

record 'm SessionQueueState =
  sessionKey :: string
  mode :: QueueMode
  pending :: "'m list"
  debounceTimer :: "nat option"
  debounceMs :: nat
  cap :: nat
  dropPolicy :: QueueDropPolicy
  inFlight :: bool

text \<open>
  Modelled from the spec: the built-in defaults of the resolution order (per-channel
  override, global config, built-in default). The default mode is \<open>queue\<close> (section 7);
  the other values are not given and are parameters.
\<close>

record BuiltInDefaults =
  defaultDebounceMs :: nat
  defaultCap :: nat
  defaultDrop :: QueueDropPolicy

text \<open>
  Modelled from the spec: the external collaborators of a submission. \<open>canSteer\<close> tells
  whether the steer callback can redirect a message into the in-flight context;
  \<open>summarizer\<close> collapses messages into one placeholder entry.
\<close>

record 'm Collaborators =
  canSteer :: "'m \<Rightarrow> bool"
  summarizer :: "'m list \<Rightarrow> 'm"

text \<open>
  Modelled from the spec: the per-channel mode override of step 1, the lookup
  \<^verbatim>\<open>byChannel[channel]\<close> on \<open>QueueModeByProvider\<close>.
\<close>

definition modeByChannel :: "QueueModeByProvider \<Rightarrow> string \<Rightarrow> QueueMode option" where
  "modeByChannel bc channel =
     (if channel = ''whatsapp'' then whatsapp bc
      else if channel = ''telegram'' then telegram bc
      else if channel = ''discord'' then discord bc
      else if channel = ''googlechat'' then googlechat bc
      else if channel = ''slack'' then slack bc
      else if channel = ''signal'' then signal bc
      else if channel = ''imessage'' then imessage bc
      else if channel = ''msteams'' then msteams bc
      else if channel = ''webchat'' then webchat bc
      else None)"

text \<open>
  Modelled from the spec: step 1, the effective mode of one event: the per-channel
  override, then the global config, then the built-in default \<open>queue\<close>.
\<close>

definition resolveMode :: "QueueConfig \<Rightarrow> string \<Rightarrow> QueueMode" where
  "resolveMode cfg channel =
     (case (case byChannel cfg of None \<Rightarrow> None | Some bc \<Rightarrow> modeByChannel bc channel) of
        Some m \<Rightarrow> m
      | None \<Rightarrow> (case QueueConfig.mode cfg of Some m \<Rightarrow> m | None \<Rightarrow> Queue))"

text \<open>
  Modelled from the spec: step 1, the effective debounce delay: the per-channel override,
  then the global config, then the built-in default.
\<close>

definition resolveDebounceMs :: "QueueConfig \<Rightarrow> BuiltInDefaults \<Rightarrow> string \<Rightarrow> nat" where
  "resolveDebounceMs cfg dflt channel =
     (case (case debounceMsByChannel cfg of None \<Rightarrow> None | Some bc \<Rightarrow> bc channel) of
        Some ms \<Rightarrow> ms
      | None \<Rightarrow> (case QueueConfig.debounceMs cfg of Some ms \<Rightarrow> ms | None \<Rightarrow> defaultDebounceMs dflt))"

text \<open>
  Modelled from the spec: step 1, the effective cap. \<open>QueueConfig\<close> has no per-channel
  cap, so the order is the global config, then the built-in default.
\<close>

definition resolveCap :: "QueueConfig \<Rightarrow> BuiltInDefaults \<Rightarrow> nat" where
  "resolveCap cfg dflt = (case QueueConfig.cap cfg of Some c \<Rightarrow> c | None \<Rightarrow> defaultCap dflt)"

text \<open>
  Modelled from the spec: step 1, the effective drop policy: the global config, then the
  built-in default.
\<close>

definition resolveDropPolicy :: "QueueConfig \<Rightarrow> BuiltInDefaults \<Rightarrow> QueueDropPolicy" where
  "resolveDropPolicy cfg dflt = (case drop' cfg of Some d \<Rightarrow> d | None \<Rightarrow> defaultDrop dflt)"

text \<open>
  Modelled from the spec: the three things step 2 can do with a new message: buffer it,
  redirect it into the in-flight context, or preempt the in-flight work.
\<close>

datatype Route = Buffer | Redirect | Preempt

text \<open>
  Modelled from the spec: step 2, what the mode does with a new message. \<open>collect\<close>,
  \<open>followup\<close> and \<open>queue\<close> always buffer; \<open>steer\<close> redirects while a batch is in
  flight and buffers otherwise; the two backlog modes steer when possible (a batch is in
  flight and the steer callback can take the message) and buffer otherwise; \<open>interrupt\<close>
  always preempts.
\<close>

definition route :: "QueueMode \<Rightarrow> bool \<Rightarrow> bool \<Rightarrow> Route" where
  "route m flying steerable =
     (case m of
        Collect' \<Rightarrow> Buffer
      | Followup \<Rightarrow> Buffer
      | Queue \<Rightarrow> Buffer
      | Steer \<Rightarrow> (if flying then Redirect else Buffer)
      | SteerBacklog \<Rightarrow> (if flying \<and> steerable then Redirect else Buffer)
      | SteerPlusBacklog \<Rightarrow> (if flying \<and> steerable then Redirect else Buffer)
      | Interrupt \<Rightarrow> Preempt)"

text \<open>
  Modelled from the spec: steps 3 and 4. The message is appended; when the length then
  exceeds the cap the drop policy applies: \<open>old\<close> evicts the oldest entries until the
  length is the cap, \<open>new\<close> rejects the incoming message and leaves \<open>pending\<close> as it was,
  \<open>summarize\<close> replaces \<open>pending\<close> by the summary placeholder and the new message. Then
  the debounce timer is armed for \<open>debounceMs\<close> from now, replacing any earlier one.
\<close>

definition buffer ::
  "('m list \<Rightarrow> 'm) \<Rightarrow> nat \<Rightarrow> 'm \<Rightarrow> 'm SessionQueueState \<Rightarrow> 'm Decision \<times> 'm SessionQueueState" where
  "buffer summarize now message st =
     (let appended = pending st @ [message];
          (decision, kept) =
            (if length appended > cap st then
               (case dropPolicy st of
                  Old \<Rightarrow> (Dropped Old, drop (length appended - cap st) appended)
                | New \<Rightarrow> (Dropped New, pending st)
                | Summarize \<Rightarrow> (Queued, [summarize (pending st), message]))
             else (Queued, appended))
      in (decision, st\<lparr>pending := kept, debounceTimer := Some (now + debounceMs st)\<rparr>))"

text \<open>
  Modelled from the spec: steps 2 to 4 on a session whose settings are resolved. A
  redirected message is released into the in-flight context and an interrupting message
  is flushed at once as a batch of its own; neither is buffered.
\<close>

definition submitSession ::
  "'m Collaborators \<Rightarrow> nat \<Rightarrow> 'm \<Rightarrow> 'm SessionQueueState \<Rightarrow> 'm Decision \<times> 'm SessionQueueState" where
  "submitSession collab now message st =
     (case route (mode st) (inFlight st) (canSteer collab message) of
        Buffer \<Rightarrow> buffer (summarizer collab) now message st
      | Redirect \<Rightarrow> (Flushed [message], st)
      | Preempt \<Rightarrow> (Flushed [message], st\<lparr>inFlight := True\<rparr>))"

text \<open>
  Modelled from the spec: the state created on the first event of a session key. Nothing
  is pending, no timer is armed, nothing is in flight; the settings are placeholders that
  step 1 overwrites before they are read.
\<close>

definition newSession :: "string \<Rightarrow> 'm SessionQueueState" where
  "newSession key =
     \<lparr>sessionKey = key, mode = Queue, pending = [], debounceTimer = None, debounceMs = 0,
      cap = 0, dropPolicy = Old, inFlight = False\<rparr>"

text \<open>
  Modelled from the spec: \<^verbatim>\<open>submit(sessionKey, message, channel)\<close>, steps 1 to 4. The
  session state is looked up or created, its settings are resolved for this event, and
  the message is routed.
\<close>

definition submit ::
  "QueueConfig \<Rightarrow> BuiltInDefaults \<Rightarrow> 'm Collaborators \<Rightarrow> nat \<Rightarrow> string \<Rightarrow> 'm \<Rightarrow> string \<Rightarrow>
   (string \<rightharpoonup> 'm SessionQueueState) \<Rightarrow> 'm Decision \<times> (string \<rightharpoonup> 'm SessionQueueState)" where
  "submit cfg dflt collab now key message channel sessions =
     (let st0 = (case sessions key of None \<Rightarrow> newSession key | Some st \<Rightarrow> st);
          st1 = st0\<lparr>mode := resolveMode cfg channel,
                    debounceMs := resolveDebounceMs cfg dflt channel,
                    cap := resolveCap cfg dflt,
                    dropPolicy := resolveDropPolicy cfg dflt\<rparr>;
          (decision, st2) = submitSession collab now message st1
      in (decision, sessions(key \<mapsto> st2)))"

text \<open>
  Modelled from the spec: the \<open>pending\<close> sequence of a session, empty before its first
  event.
\<close>

definition pendingOf :: "(string \<rightharpoonup> 'm SessionQueueState) \<Rightarrow> string \<Rightarrow> 'm list" where
  "pendingOf sessions key = (case sessions key of None \<Rightarrow> [] | Some st \<Rightarrow> pending st)"

text \<open>
  Modelled from the spec: the in-flight flag of a session, false before its first event.
\<close>

definition inFlightOf :: "(string \<rightharpoonup> 'm SessionQueueState) \<Rightarrow> string \<Rightarrow> bool" where
  "inFlightOf sessions key = (case sessions key of None \<Rightarrow> False | Some st \<Rightarrow> inFlight st)"

text \<open>
  Modelled from the spec: a run of submissions to one session with no flush between them,
  each message with its arrival time.
\<close>

definition submitAll ::
  "QueueConfig \<Rightarrow> BuiltInDefaults \<Rightarrow> 'm Collaborators \<Rightarrow> string \<Rightarrow> string \<Rightarrow> (nat \<times> 'm) list \<Rightarrow>
   (string \<rightharpoonup> 'm SessionQueueState) \<Rightarrow> (string \<rightharpoonup> 'm SessionQueueState)" where
  "submitAll cfg dflt collab key channel arrivals sessions =
     fold (\<lambda>(now, message) ss. snd (submit cfg dflt collab now key message channel ss))
       arrivals sessions"

subsection \<open>Inputs of the closed instances of the queue controller\<close>

text \<open>
  Two configurations with mode \<open>queue\<close> and cap 3, one dropping the oldest and one
  rejecting the newest; defaults; collaborators that never steer; the arrivals A, B, C, D;
  and a session that holds A, B, C.
\<close>

definition capThree :: "QueueDropPolicy \<Rightarrow> QueueConfig" where
  "capThree policy =
     \<lparr>QueueConfig.mode = Some Queue, byChannel = None, QueueConfig.debounceMs = None,
      debounceMsByChannel = None, QueueConfig.cap = Some 3, drop' = Some policy\<rparr>"

definition builtIn :: BuiltInDefaults where
  "builtIn = \<lparr>defaultDebounceMs = 1000, defaultCap = 20, defaultDrop = Summarize\<rparr>"

definition plain :: "string Collaborators" where
  "plain = \<lparr>canSteer = (\<lambda>message. False), summarizer = concat\<rparr>"

definition arrivalsABCD :: "(nat \<times> string) list" where
  "arrivalsABCD = [(0, ''A''), (1, ''B''), (2, ''C''), (3, ''D'')]"

definition holdsABC :: "string \<rightharpoonup> string SessionQueueState" where
  "holdsABC =
     [''s1'' \<mapsto>
        \<lparr>sessionKey = ''s1'', mode = Queue, pending = [''A'', ''B'', ''C''],
         debounceTimer = Some 1002, debounceMs = 1000, cap = 3, dropPolicy = Old,
         inFlight = False\<rparr>]"

section \<open>Facts about the dispatcher\<close>

lemma pushAll_append: "pushAll key hs handlers = handlers @ map (Pair key) hs"
  unfolding pushAll_def by (induction hs arbitrary: handlers) simp_all

lemma resolveHandlers_eq:
  "resolveHandlers reg event =
     map (Pair (specificKey event)) (handlersOf reg (specificKey event))
     @ map (Pair (generalKey event)) (handlersOf reg (generalKey event))"
  by (simp add: resolveHandlers_def specificHandlers_def generalHandlers_def pushAll_append
      handlersOf_def split: option.splits)

lemma triggerHook_run:
  "triggerHook beh event w = runHandlers beh event (resolveHandlers (registry w) event) w"
  by (simp add: triggerHook_def Let_def)

text \<open>
  The body of the loop ends in a throw exactly when the handler throws a value whose
  message cannot be built; the handler has run by then and nothing is logged.
\<close>

lemma invokeHandler_rejects_iff:
  "fst (invokeHandler beh event key handler w) = Rejected e \<longleftrightarrow>
     (\<exists>err. fst (beh handler event (registry w, ext w)) = Rejected err \<and> errMessage err = Inl e)"
  by (auto simp add: invokeHandler_def catchBlock_def Let_def
      split: prod.splits outcome.splits sum.splits)

lemma runHandlers_stops:
  assumes "beh handler event (registry w, ext w) = (Rejected err, (reg', ext'))"
    and "errMessage err = Inl e"
  shows "runHandlers beh event ((key, handler) # rest) w =
     (Rejected e, w\<lparr>registry := reg', ext := ext', invoked := invoked w @ [(key, handler)]\<rparr>)"
  using assms by (simp add: invokeHandler_def catchBlock_def)

text \<open>
  When every value the handlers throw has a message, the dispatch resolves, it calls the
  whole list in order, and the registry and the external state it leaves are the ones the
  handlers produce when applied one after the other.
\<close>

lemma runHandlers_when_catch_completes:
  assumes printable: "\<And>h s err. fst (beh h event s) = Rejected err \<Longrightarrow> \<exists>msg. errMessage err = Inr msg"
  shows "fst (runHandlers beh event hs w) = Resolved
    \<and> invoked (snd (runHandlers beh event hs w)) = invoked w @ hs
    \<and> (registry (snd (runHandlers beh event hs w)), ext (snd (runHandlers beh event hs w))) =
        fold (\<lambda>(key, handler) s. snd (beh handler event s)) hs (registry w, ext w)"
proof (induction hs arbitrary: w)
  case Nil
  show ?case by simp
next
  case (Cons kh hs)
  obtain key handler where kh: "kh = (key, handler)" by (cases kh)
  obtain res reg' ext' where b: "beh handler event (registry w, ext w) = (res, (reg', ext'))"
    by (cases "beh handler event (registry w, ext w)") auto
  let ?w1 = "w\<lparr>registry := reg', ext := ext', invoked := invoked w @ [(key, handler)]\<rparr>"
  have "\<exists>w'. invokeHandler beh event key handler w = (Resolved, w')
      \<and> registry w' = reg' \<and> ext w' = ext' \<and> invoked w' = invoked w @ [(key, handler)]"
  proof (cases res)
    case Resolved
    with b show ?thesis by (simp add: invokeHandler_def)
  next
    case (Rejected err)
    with b have "fst (beh handler event (registry w, ext w)) = Rejected err" by simp
    from printable [OF this] obtain msg where "errMessage err = Inr msg" by auto
    with b Rejected show ?thesis by (simp add: invokeHandler_def catchBlock_def)
  qed
  then obtain w' where step: "invokeHandler beh event key handler w = (Resolved, w')"
    and w': "registry w' = reg'" "ext w' = ext'" "invoked w' = invoked w @ [(key, handler)]"
    by auto
  from Cons.IH [of w'] kh step w' b show ?case by simp
qed

section \<open>Facts about the queue controller\<close>

lemma submit_buffer_pending:
  assumes "route (resolveMode cfg channel) (inFlightOf sessions key) (canSteer collab message) = Buffer"
  shows "pendingOf (snd (submit cfg dflt collab now key message channel sessions)) key =
     (let p = pendingOf sessions key; c = resolveCap cfg dflt in
      if length p + 1 > c then
        (case resolveDropPolicy cfg dflt of
           Old \<Rightarrow> drop (length p + 1 - c) (p @ [message])
         | New \<Rightarrow> p
         | Summarize \<Rightarrow> [summarizer collab p, message])
      else p @ [message])"
  using assms
  by (auto simp add: submit_def submitSession_def buffer_def pendingOf_def inFlightOf_def
      newSession_def Let_def split: option.splits QueueDropPolicy.splits prod.splits)

lemma submit_buffer_decision:
  assumes "route (resolveMode cfg channel) (inFlightOf sessions key) (canSteer collab message) = Buffer"
  shows "fst (submit cfg dflt collab now key message channel sessions) =
     (let p = pendingOf sessions key; c = resolveCap cfg dflt in
      if length p + 1 > c then
        (case resolveDropPolicy cfg dflt of
           Old \<Rightarrow> Dropped Old
         | New \<Rightarrow> Dropped New
         | Summarize \<Rightarrow> Queued)
      else Queued)"
  using assms
  by (auto simp add: submit_def submitSession_def buffer_def pendingOf_def inFlightOf_def
      newSession_def Let_def split: option.splits QueueDropPolicy.splits prod.splits)

lemma route_always_buffer:
  "m \<in> {Collect', Followup, Queue} \<Longrightarrow> route m flying steerable = Buffer"
  by (auto simp add: route_def)

lemma keep_last_step:
  fixes xs :: "'a list"
  assumes q: "q = drop (length xs - c) xs"
  shows "drop (length q + 1 - c) (q @ [m]) = drop (length (xs @ [m]) - c) (xs @ [m])"
proof (cases "length xs < c")
  case True
  with q show ?thesis by simp
next
  case False
  then have lq: "length q = c" using q by simp
  have "drop (length (xs @ [m]) - c) (xs @ [m]) = drop (Suc (length xs - c)) (xs @ [m])"
    using False by (simp add: Suc_diff_le)
  also have "\<dots> = drop 1 (drop (length xs - c) (xs @ [m]))"
    by (metis drop_drop plus_1_eq_Suc)
  also have "drop (length xs - c) (xs @ [m]) = q @ [m]"
    using q by simp
  finally show ?thesis using lq by simp
qed

lemma submitAll_snoc:
  "submitAll cfg dflt collab key channel (arrivals @ [(now, message)]) sessions =
     snd (submit cfg dflt collab now key message channel
            (submitAll cfg dflt collab key channel arrivals sessions))"
  by (simp add: submitAll_def)

lemma submitAll_old_pending:
  assumes m: "resolveMode cfg channel \<in> {Collect', Followup, Queue}"
    and d: "resolveDropPolicy cfg dflt = Old"
    and inv: "length (pendingOf sessions key) \<le> resolveCap cfg dflt"
  shows "pendingOf (submitAll cfg dflt collab key channel arrivals sessions) key =
     drop (length (pendingOf sessions key) + length arrivals - resolveCap cfg dflt)
       (pendingOf sessions key @ map snd arrivals)"
proof (induction arrivals rule: rev_induct)
  case Nil
  from inv show ?case by (simp add: submitAll_def)
next
  case (snoc a arrivals)
  obtain now message where a: "a = (now, message)" by (cases a)
  let ?ss = "submitAll cfg dflt collab key channel arrivals sessions"
  have r: "route (resolveMode cfg channel) (inFlightOf ?ss key) (canSteer collab message) = Buffer"
    using m by (rule route_always_buffer)
  have q: "pendingOf ?ss key =
      drop (length (pendingOf sessions key @ map snd arrivals) - resolveCap cfg dflt)
        (pendingOf sessions key @ map snd arrivals)"
    using snoc.IH by simp
  have "pendingOf (snd (submit cfg dflt collab now key message channel ?ss)) key =
      drop (length (pendingOf ?ss key) + 1 - resolveCap cfg dflt) (pendingOf ?ss key @ [message])"
    using submit_buffer_pending [OF r, of dflt now] d by (simp add: Let_def)
  also have "\<dots> = drop (length ((pendingOf sessions key @ map snd arrivals) @ [message])
        - resolveCap cfg dflt) ((pendingOf sessions key @ map snd arrivals) @ [message])"
    using q by (rule keep_last_step)
  finally show ?case by (simp add: a submitAll_snoc)
qed

section \<open>Facts about the inputs of the closed instances\<close>

lemma scenario_keys:
  "specificKey commandNew = ''command:new''"
  "generalKey commandNew = ''command''"
  "specificKey colonTyped = ''command:new:stop''"
  "generalKey colonTyped = ''command:new''"
  by (simp_all add: specificKey_def generalKey_def commandNew_def colonTyped_def createHookEvent_def)

lemma scenario_registry:
  "handlersOf twoHooks ''command:new'' = [2]"
  "handlersOf twoHooks ''command'' = [1]"
  "handlersOf sameTwice ''command:new'' = []"
  "handlersOf sameTwice ''command'' = [1, 1]"
  "handlersOf colonKeys ''command:new:stop'' = [3]"
  "handlersOf colonKeys ''command:new'' = [2]"
  "handlersOf (registry noHooks) k = []"
  by (simp_all add: twoHooks_def sameTwice_def colonKeys_def noHooks_def registerHook_def
      handlersOf_def)

lemma scenario_resolved:
  "resolveHandlers twoHooks commandNew = [(''command:new'', 2), (''command'', 1)]"
  "resolveHandlers sameTwice commandNew = [(''command'', 1), (''command'', 1)]"
  "resolveHandlers colonKeys colonTyped = [(''command:new:stop'', 3), (''command:new'', 2)]"
  by (simp_all add: resolveHandlers_eq scenario_keys scenario_registry)

lemma scenario_thrown:
  "errMessage nullPrototype = Inl (ErrorObj ''Cannot convert object to primitive value'')"
  "errMessage symbolMessage = Inl (ErrorObj ''Cannot convert a Symbol value to a string'')"
  "errMessage (ErrorObj ''boom'') = Inr ''boom''"
  by (simp_all add: errMessage_def nullPrototype_def symbolMessage_def)

lemma cfg_simps:
  "resolveDropPolicy (capThree policy) builtIn = policy"
  "resolveCap (capThree policy) builtIn = 3"
  "resolveMode (capThree policy) channel = Queue"
  by (simp_all add: resolveDropPolicy_def resolveCap_def resolveMode_def capThree_def)

section \<open>The claims\<close>

text \<open>
  Claim C1. The claim: for every registry state and every event, \<^verbatim>\<open>triggerHook\<close> calls
  exactly the handlers under the specific key \<open>type:action\<close> and then the handlers under
  the general key \<open>type\<close>, each group in registration order, one after the other. The
  code at this input: \<open>H1 = 1\<close> is registered for \<^verbatim>\<open>"command"\<close> and \<open>H2 = 2\<close> for
  \<^verbatim>\<open>"command:new"\<close>, the event is \<^verbatim>\<open>{type: "command", action: "new"}\<close>, and \<open>H2\<close>
  throws \<^verbatim>\<open>Object.create(null)\<close>. The list resolved for the event is \<open>H2\<close>, then
  \<open>H1\<close>. \<open>H2\<close> runs (it wrote the journal), \<^verbatim>\<open>String(err)\<close> throws inside the
  \<^verbatim>\<open>catch\<close> block, the promise rejects with that \<^verbatim>\<open>TypeError\<close>, and \<open>H1\<close> is never
  called. The unguarded \<^verbatim>\<open>catch\<close> block of lines 46 to 49 is the defect.
\<close>

theorem triggerHook_dispatch_cut_short:
  "resolveHandlers (registry (startWith twoHooks)) commandNew =
     [(''command:new'', 2), (''command'', 1)]
   \<and> triggerHook (journalling (throwsAt 2 nullPrototype)) commandNew (startWith twoHooks) =
     (Rejected (ErrorObj ''Cannot convert object to primitive value''),
      \<lparr>registry = twoHooks, ext = [2], logged = [], invoked = [(''command:new'', 2)]\<rparr>)"
  by (simp add: triggerHook_run startWith_def scenario_resolved invokeHandler_def
      catchBlock_def journalling_def throwsAt_def allResolve_def scenario_thrown
      scenario_registry)

text \<open>
  Claim C2. The claim: when a handler of the resolved list throws, \<^verbatim>\<open>triggerHook\<close>
  still calls every handler after it and returns normally; the failure never reaches the
  caller. The code, same registry and event as for C1. When \<open>H2\<close> throws
  \<^verbatim>\<open>new Error("boom")\<close> the code does what the claim says: the failure is logged, \<open>H1\<close>
  runs and the promise resolves. When \<open>H2\<close> throws an \<^verbatim>\<open>Error\<close> whose message is a
  \<^verbatim>\<open>Symbol\<close>, the template literal of line 48 throws inside the \<^verbatim>\<open>catch\<close> block:
  the promise rejects to the caller, \<open>H1\<close> does not run and nothing is logged. The same
  happens when \<open>H2\<close> throws \<^verbatim>\<open>Object.create(null)\<close> (line 47).
\<close>

theorem triggerHook_failure_reaches_caller:
  "triggerHook (journalling (throwsAt 2 (ErrorObj ''boom''))) commandNew (startWith twoHooks) =
     (Resolved,
      \<lparr>registry = twoHooks, ext = [2, 1],
       logged = [handlerErrorLine ''command:new'' ''boom''],
       invoked = [(''command:new'', 2), (''command'', 1)]\<rparr>)
   \<and> triggerHook (journalling (throwsAt 2 symbolMessage)) commandNew (startWith twoHooks) =
     (Rejected (ErrorObj ''Cannot convert a Symbol value to a string''),
      \<lparr>registry = twoHooks, ext = [2], logged = [], invoked = [(''command:new'', 2)]\<rparr>)
   \<and> fst (triggerHook (journalling (throwsAt 2 nullPrototype)) commandNew (startWith twoHooks)) =
     Rejected (ErrorObj ''Cannot convert object to primitive value'')"
  by (simp add: triggerHook_run startWith_def scenario_resolved invokeHandler_def
      catchBlock_def journalling_def throwsAt_def allResolve_def scenario_thrown
      scenario_registry)

text \<open>
  Claim C3. Under drop policy \<open>old\<close> and cap \<open>c\<close>: a submission that is buffered and
  would exceed the cap is reported as dropped, leaves exactly \<open>c\<close> entries in \<open>pending\<close>,
  and these are the last \<open>c\<close> of the old entries followed by the new message; and after
  any run of submissions to a session in an always-buffering mode with no flush between
  them, \<open>pending\<close> holds the most recent \<open>c\<close> messages in submission order. In the
  instance, mode \<open>queue\<close>, cap 3: submitting A, B, C, D leaves [B, C, D].
\<close>

theorem submit_drop_old_keeps_newest:
  assumes d: "resolveDropPolicy cfg dflt = Old"
    and c: "resolveCap cfg dflt = c"
  shows "(route (resolveMode cfg channel) (inFlightOf sessions key) (canSteer collab message) = Buffer
          \<and> c < length (pendingOf sessions key) + 1 \<longrightarrow>
            fst (submit cfg dflt collab now key message channel sessions) = Dropped Old
          \<and> pendingOf (snd (submit cfg dflt collab now key message channel sessions)) key =
              drop (length (pendingOf sessions key) + 1 - c) (pendingOf sessions key @ [message])
          \<and> length (pendingOf (snd (submit cfg dflt collab now key message channel sessions)) key) = c)
    \<and> (resolveMode cfg channel \<in> {Collect', Followup, Queue}
          \<and> length (pendingOf sessions key) \<le> c \<longrightarrow>
            pendingOf (submitAll cfg dflt collab key channel arrivals sessions) key =
              drop (length (pendingOf sessions key) + length arrivals - c)
                (pendingOf sessions key @ map snd arrivals))"
proof (intro conjI impI)
  assume h: "route (resolveMode cfg channel) (inFlightOf sessions key) (canSteer collab message) = Buffer
    \<and> c < length (pendingOf sessions key) + 1"
  then have r: "route (resolveMode cfg channel) (inFlightOf sessions key) (canSteer collab message) = Buffer"
    and over: "c < length (pendingOf sessions key) + 1" by simp_all
  show "fst (submit cfg dflt collab now key message channel sessions) = Dropped Old"
    using submit_buffer_decision [OF r, of dflt now] d c over by (simp add: Let_def)
  show p: "pendingOf (snd (submit cfg dflt collab now key message channel sessions)) key =
      drop (length (pendingOf sessions key) + 1 - c) (pendingOf sessions key @ [message])"
    using submit_buffer_pending [OF r, of dflt now] d c over by (simp add: Let_def)
  show "length (pendingOf (snd (submit cfg dflt collab now key message channel sessions)) key) = c"
    using over by (simp add: p)
next
  assume h: "resolveMode cfg channel \<in> {Collect', Followup, Queue}
    \<and> length (pendingOf sessions key) \<le> c"
  then have m: "resolveMode cfg channel \<in> {Collect', Followup, Queue}"
    and inv: "length (pendingOf sessions key) \<le> resolveCap cfg dflt" using c by simp_all
  show "pendingOf (submitAll cfg dflt collab key channel arrivals sessions) key =
      drop (length (pendingOf sessions key) + length arrivals - c)
        (pendingOf sessions key @ map snd arrivals)"
    using submitAll_old_pending [OF m d inv, of collab arrivals] c by simp
qed

text \<open>The instance at the inputs above.\<close>

theorem submit_drop_old_scenario:
  "resolveDropPolicy (capThree Old) builtIn = Old
   \<and> resolveCap (capThree Old) builtIn = 3
   \<and> resolveMode (capThree Old) ''telegram'' = Queue
   \<and> pendingOf (Map.empty :: string \<rightharpoonup> string SessionQueueState) ''s1'' = []
   \<and> pendingOf (submitAll (capThree Old) builtIn plain ''s1'' ''telegram'' arrivalsABCD Map.empty) ''s1''
        = [''B'', ''C'', ''D'']
   \<and> pendingOf holdsABC ''s1'' = [''A'', ''B'', ''C'']
   \<and> fst (submit (capThree Old) builtIn plain 3 ''s1'' ''D'' ''telegram'' holdsABC) = Dropped Old
   \<and> pendingOf (snd (submit (capThree Old) builtIn plain 3 ''s1'' ''D'' ''telegram'' holdsABC)) ''s1''
        = [''B'', ''C'', ''D'']"
proof -
  have e: "pendingOf (Map.empty :: string \<rightharpoonup> string SessionQueueState) ''s1'' = []"
    by (simp add: pendingOf_def)
  have h: "pendingOf holdsABC ''s1'' = [''A'', ''B'', ''C'']"
    by (simp add: pendingOf_def holdsABC_def)
  have r: "route (resolveMode (capThree Old) ''telegram'') (inFlightOf holdsABC ''s1'')
      (canSteer plain ''D'') = Buffer"
    by (simp add: cfg_simps route_def)
  from submit_drop_old_keeps_newest [OF cfg_simps(1) cfg_simps(2), where channel = "''telegram''" and key = "''s1''" and collab = plain
      and sessions = Map.empty and arrivals = arrivalsABCD] e
  have many: "pendingOf (submitAll (capThree Old) builtIn plain ''s1'' ''telegram'' arrivalsABCD Map.empty) ''s1''
        = [''B'', ''C'', ''D'']"
    by (simp add: cfg_simps arrivalsABCD_def)
  from submit_drop_old_keeps_newest [OF cfg_simps(1) cfg_simps(2), where channel = "''telegram''" and key = "''s1''" and collab = plain
      and sessions = holdsABC and message = "''D''" and now = 3] r h
  have one: "fst (submit (capThree Old) builtIn plain 3 ''s1'' ''D'' ''telegram'' holdsABC) = Dropped Old
    \<and> pendingOf (snd (submit (capThree Old) builtIn plain 3 ''s1'' ''D'' ''telegram'' holdsABC)) ''s1''
        = [''B'', ''C'', ''D'']"
    by simp
  from e h many one show ?thesis by (simp add: cfg_simps)
qed

text \<open>
  Claim C4. Under drop policy \<open>new\<close>, a submission that is buffered and would exceed
  the cap returns the dropped Decision, and \<open>pending\<close> is the same sequence, of the same
  length, as before: the incoming message is not appended.
\<close>

theorem submit_drop_new_rejects:
  assumes r: "route (resolveMode cfg channel) (inFlightOf sessions key) (canSteer collab message) = Buffer"
    and d: "resolveDropPolicy cfg dflt = New"
    and over: "resolveCap cfg dflt < length (pendingOf sessions key) + 1"
  shows "fst (submit cfg dflt collab now key message channel sessions) = Dropped New
    \<and> pendingOf (snd (submit cfg dflt collab now key message channel sessions)) key
        = pendingOf sessions key
    \<and> length (pendingOf (snd (submit cfg dflt collab now key message channel sessions)) key)
        = length (pendingOf sessions key)"
  using submit_buffer_decision [OF r, of dflt now] submit_buffer_pending [OF r, of dflt now] d over
  by (simp add: Let_def)

text \<open>The instance at the inputs above.\<close>

theorem submit_drop_new_scenario:
  "route (resolveMode (capThree New) ''telegram'') (inFlightOf holdsABC ''s1'') (canSteer plain ''D'') = Buffer
   \<and> resolveDropPolicy (capThree New) builtIn = New
   \<and> resolveCap (capThree New) builtIn < length (pendingOf holdsABC ''s1'') + 1
   \<and> fst (submit (capThree New) builtIn plain 3 ''s1'' ''D'' ''telegram'' holdsABC) = Dropped New
   \<and> pendingOf (snd (submit (capThree New) builtIn plain 3 ''s1'' ''D'' ''telegram'' holdsABC)) ''s1''
        = [''A'', ''B'', ''C'']"
proof -
  have h: "pendingOf holdsABC ''s1'' = [''A'', ''B'', ''C'']"
    by (simp add: pendingOf_def holdsABC_def)
  have r: "route (resolveMode (capThree New) ''telegram'') (inFlightOf holdsABC ''s1'')
      (canSteer plain ''D'') = Buffer"
    by (simp add: cfg_simps route_def)
  have over: "resolveCap (capThree New) builtIn < length (pendingOf holdsABC ''s1'') + 1"
    by (simp add: cfg_simps h)
  from submit_drop_new_rejects [OF r cfg_simps(1) over, where now = 3] h r over
  show ?thesis by (simp add: cfg_simps)
qed


text \<open>
  Claim C6. The claim: \<^verbatim>\<open>registerHook\<close> appends without deduplication, so a handler
  registered twice under a key is stored twice, and a matching \<^verbatim>\<open>triggerHook\<close> calls it
  twice. The code: handler 1 is registered twice under \<^verbatim>\<open>"command"\<close> and the list under
  the key holds it twice; it throws \<^verbatim>\<open>Object.create(null)\<close>. The dispatch of
  \<^verbatim>\<open>{type: "command", action: "new"}\<close> calls it once: the first call ends the loop, by
  the defect of C2.
\<close>

theorem registerHook_twice_called_once:
  "handlersOf sameTwice ''command'' = [1, 1]
   \<and> resolveHandlers (registry (startWith sameTwice)) commandNew =
     [(''command'', 1), (''command'', 1)]
   \<and> triggerHook (journalling (throwsAt 1 nullPrototype)) commandNew (startWith sameTwice) =
     (Rejected (ErrorObj ''Cannot convert object to primitive value''),
      \<lparr>registry = sameTwice, ext = [1], logged = [], invoked = [(''command'', 1)]\<rparr>)"
  by (simp add: triggerHook_run startWith_def scenario_resolved invokeHandler_def
      catchBlock_def journalling_def throwsAt_def allResolve_def scenario_thrown
      scenario_registry)

text \<open>
  Claim C7. When neither the specific key nor the general key of the event has a handler
  (the key is absent or its list is empty), \<^verbatim>\<open>triggerHook\<close> resolves and leaves the
  whole state as it was: no handler is called, nothing is logged, and the registry is
  unchanged.
\<close>

theorem triggerHook_no_handlers:
  assumes "handlersOf (registry w) (specificKey event) = []"
    and "handlersOf (registry w) (generalKey event) = []"
  shows "triggerHook beh event w = (Resolved, w)"
  using assms by (simp add: triggerHook_def resolveHandlers_eq)

text \<open>The instance at the inputs above.\<close>

theorem triggerHook_no_handlers_scenario:
  "handlersOf (registry noHooks) (specificKey commandNew) = []
   \<and> handlersOf (registry noHooks) (generalKey commandNew) = []
   \<and> triggerHook specificThrows commandNew noHooks = (Resolved, noHooks)"
proof -
  have a: "handlersOf (registry noHooks) (specificKey commandNew) = []"
    and b: "handlersOf (registry noHooks) (generalKey commandNew) = []"
    by (simp_all add: scenario_registry)
  from triggerHook_no_handlers [OF a b, of specificThrows] a b show ?thesis by simp
qed

text \<open>
  Claim C8. The values of \<^verbatim>\<open>QueueMode\<close> are exactly the seven literals steer,
  followup, collect, steer-backlog, steer+backlog, queue and interrupt, and the values of
  \<^verbatim>\<open>QueueDropPolicy\<close> are exactly old, new and summarize; distinct values are distinct
  literals. The mode and drop fields of \<open>QueueConfig\<close> and the fields of
  \<open>QueueModeByProvider\<close> have these types.
\<close>

theorem queue_config_values:
  "range queueModeLiteral =
     {''steer'', ''followup'', ''collect'', ''steer-backlog'', ''steer+backlog'', ''queue'',
      ''interrupt''}
   \<and> inj queueModeLiteral
   \<and> range queueDropPolicyLiteral = {''old'', ''new'', ''summarize''}
   \<and> inj queueDropPolicyLiteral"
proof (intro conjI)
  show "range queueModeLiteral =
     {''steer'', ''followup'', ''collect'', ''steer-backlog'', ''steer+backlog'', ''queue'',
      ''interrupt''}"
  proof (rule set_eqI)
    fix s
    have "s \<in> range queueModeLiteral \<longleftrightarrow> (\<exists>m. s = queueModeLiteral m)" by auto
    also have "\<dots> \<longleftrightarrow> s = queueModeLiteral Steer \<or> s = queueModeLiteral Followup
        \<or> s = queueModeLiteral Collect' \<or> s = queueModeLiteral SteerBacklog
        \<or> s = queueModeLiteral SteerPlusBacklog \<or> s = queueModeLiteral Queue
        \<or> s = queueModeLiteral Interrupt"
      by (metis QueueMode.exhaust)
    finally show "s \<in> range queueModeLiteral \<longleftrightarrow> s \<in> {''steer'', ''followup'', ''collect'', ''steer-backlog'', ''steer+backlog'', ''queue'',
      ''interrupt''}" by simp
  qed
  show "inj queueModeLiteral"
  proof (rule injI)
    fix x y assume "queueModeLiteral x = queueModeLiteral y"
    then show "x = y" by (cases x; cases y; simp)
  qed
  show "range queueDropPolicyLiteral = {''old'', ''new'', ''summarize''}"
  proof (rule set_eqI)
    fix s
    have "s \<in> range queueDropPolicyLiteral \<longleftrightarrow> (\<exists>m. s = queueDropPolicyLiteral m)" by auto
    also have "\<dots> \<longleftrightarrow> s = queueDropPolicyLiteral Old \<or> s = queueDropPolicyLiteral New
        \<or> s = queueDropPolicyLiteral Summarize"
      by (metis QueueDropPolicy.exhaust)
    finally show "s \<in> range queueDropPolicyLiteral \<longleftrightarrow> s \<in> {''old'', ''new'', ''summarize''}" by simp
  qed
  show "inj queueDropPolicyLiteral"
  proof (rule injI)
    fix x y assume "queueDropPolicyLiteral x = queueDropPolicyLiteral y"
    then show "x = y" by (cases x; cases y; simp)
  qed
qed

text \<open>The instance at the inputs above.\<close>

theorem queue_config_values_instance:
  "queueModeLiteral SteerPlusBacklog = ''steer+backlog''
   \<and> ''steer+backlog'' \<in> range queueModeLiteral
   \<and> ''pause'' \<notin> range queueModeLiteral
   \<and> ''summarize'' \<in> range queueDropPolicyLiteral
   \<and> ''oldest'' \<notin> range queueDropPolicyLiteral"
proof -
  note t = queue_config_values
  have m: "range queueModeLiteral =
     {''steer'', ''followup'', ''collect'', ''steer-backlog'', ''steer+backlog'', ''queue'',
      ''interrupt''}"
    by (rule t [THEN conjunct1])
  have d: "range queueDropPolicyLiteral = {''old'', ''new'', ''summarize''}"
    by (rule t [THEN conjunct2, THEN conjunct2, THEN conjunct1])
  have a: "''steer+backlog'' \<in> range queueModeLiteral" unfolding m by simp
  have b: "''pause'' \<notin> range queueModeLiteral" unfolding m by simp
  have c: "''summarize'' \<in> range queueDropPolicyLiteral" unfolding d by simp
  have e: "''oldest'' \<notin> range queueDropPolicyLiteral" unfolding d by simp
  from a b c e show ?thesis by simp
qed

text \<open>
  Claim C9. \<^verbatim>\<open>registerHook(key, handler)\<close> changes the entry of \<open>key\<close> only: the
  list stored under any other key is the same after the call.
\<close>

theorem registerHook_frame:
  assumes "k' \<noteq> key"
  shows "registerHook key handler reg k' = reg k'"
  using assms by (simp add: registerHook_def)

text \<open>The instance at the inputs above.\<close>

theorem registerHook_frame_scenario:
  "''command'' \<noteq> ''command:new''
   \<and> registerHook ''command:new'' 2 (registerHook ''command'' 1 Map.empty) ''command'' = Some [1]"
proof -
  have a: "''command'' \<noteq> ''command:new''" by simp
  have b: "registerHook ''command'' 1 Map.empty ''command'' = Some [1]"
    by (simp add: registerHook_def handlersOf_def)
  from registerHook_frame [OF a, of 2 "registerHook ''command'' 1 Map.empty"] a b
  show ?thesis by simp
qed


end
